theory Spec2Isabelle
  imports Main "HOL-Library.AList"
begin

section \<open>JavaScript values\<close>

text \<open>
  The interceptors of \<^verbatim>\<open>src/es/index.js\<close> work on untyped JavaScript values: an axios
  response, an axios error, a config. A value is modelled by \<open>jsval\<close>. An object is the
  list of its own enumerable properties in insertion order (the enumeration order of
  JavaScript for names that are not array indices). Numbers are the integers (the time
  values of \<^verbatim>\<open>Date\<close> are integral milliseconds) and \<open>JNaN\<close>. \<open>JFun f\<close> is the
  built-in function of name \<open>f\<close>, such as the \<^verbatim>\<open>toString\<close> every object inherits; the
  program can meet one as a value but calls none, except the method \<^verbatim>\<open>toUpperCase\<close>,
  which is modelled on strings directly.
\<close>

datatype jsval =
    JUndefined
  | JNull
  | JBool bool
  | JNum int
  | JNaN
  | JStr string
  | JObj "(string \<times> jsval) list"
  | JArr "jsval list"
  | JFun string

type_synonym props = "(string \<times> jsval) list"

text \<open>The only exception the program can raise by itself is a \<^verbatim>\<open>TypeError\<close>.\<close>

datatype exn = TypeError

text \<open>Sequencing of a computation that may throw.\<close>

definition then_do :: "exn + 'a \<Rightarrow> ('a \<Rightarrow> exn + 'b) \<Rightarrow> exn + 'b" where
  "then_do m f = (case m of Inl e \<Rightarrow> Inl e | Inr x \<Rightarrow> f x)"

text \<open>Truthiness, as tested by \<^verbatim>\<open>if (v)\<close>, \<^verbatim>\<open>v ? a : b\<close> and \<^verbatim>\<open>v || w\<close>.\<close>

fun truthy :: "jsval \<Rightarrow> bool" where
  "truthy JUndefined = False"
| "truthy JNull = False"
| "truthy (JBool b) = b"
| "truthy (JNum n) = (n \<noteq> 0)"
| "truthy JNaN = False"
| "truthy (JStr s) = (s \<noteq> [])"
| "truthy (JObj ps) = True"
| "truthy (JArr xs) = True"
| "truthy (JFun f) = True"

fun nullish :: "jsval \<Rightarrow> bool" where
  "nullish JUndefined = True"
| "nullish JNull = True"
| "nullish v = False"

text \<open>The value of property \<open>k\<close> in a property list; \<^verbatim>\<open>undefined\<close> when absent.\<close>

definition lookup :: "props \<Rightarrow> string \<Rightarrow> jsval" where
  "lookup ps k = (case map_of ps k of Some v \<Rightarrow> v | None \<Rightarrow> JUndefined)"

text \<open>
  The property read \<^verbatim>\<open>v.k\<close>, also the read done by destructuring
  \<^verbatim>\<open>const { k } = v\<close>: a \<^verbatim>\<open>TypeError\<close> on \<^verbatim>\<open>undefined\<close> and \<^verbatim>\<open>null\<close>. The names the
  program reads (\<^verbatim>\<open>config\<close>, \<^verbatim>\<open>headers\<close>, \<^verbatim>\<open>host\<close>, ...) are not properties of
  strings, arrays, numbers, booleans or built-in functions, so the read gives
  \<^verbatim>\<open>undefined\<close> there.
\<close>

fun get :: "jsval \<Rightarrow> string \<Rightarrow> exn + jsval" where
  "get JUndefined k = Inl TypeError"
| "get JNull k = Inl TypeError"
| "get (JObj ps) k = Inr (lookup ps k)"
| "get v k = Inr JUndefined"

text \<open>
  Decimal notation of a natural number and of an integer, which is how JavaScript
  prints an integral number below \<open>10\<^sup>2\<^sup>1\<close> in absolute value.
\<close>

fun dec :: "nat \<Rightarrow> string" where
  "dec n = (if n < 10 then [char_of (48 + n)] else dec (n div 10) @ [char_of (48 + n mod 10)])"

definition show_int :: "int \<Rightarrow> string" where
  "show_int i = (if i < 0 then CHR ''-'' # dec (nat (- i)) else dec (nat i))"

fun join :: "string list \<Rightarrow> string" where
  "join [] = []"
| "join [s] = s"
| "join (s # t # ss) = s @ CHR '','' # join (t # ss)"

text \<open>
  The string conversion done by a template literal \<^verbatim>\<open>`${v}`\<close>. An array joins the
  conversions of its elements with commas, \<^verbatim>\<open>undefined\<close> and \<^verbatim>\<open>null\<close> elements giving
  the empty string; a plain object gives \<^verbatim>\<open>[object Object]\<close>, a built-in function
  its native-code notation.
\<close>

fun js_toString :: "jsval \<Rightarrow> string" where
  "js_toString JUndefined = ''undefined''"
| "js_toString JNull = ''null''"
| "js_toString (JBool b) = (if b then ''true'' else ''false'')"
| "js_toString (JNum n) = show_int n"
| "js_toString JNaN = ''NaN''"
| "js_toString (JStr s) = s"
| "js_toString (JObj ps) = ''[object Object]''"
| "js_toString (JArr xs) = join (map (\<lambda>x. if nullish x then [] else js_toString x) xs)"
| "js_toString (JFun f) = ''function '' @ f @ ''() { [native code] }''"

text \<open>
  The own enumerable properties of a value, as \<^verbatim>\<open>Object.assign\<close> and lodash read them
  from a source: the properties of an object, the indexed elements of an array, the
  indexed characters of a string, nothing for the other primitives.
\<close>

definition indexed :: "jsval list \<Rightarrow> props" where
  "indexed xs = map (\<lambda>i. (dec i, xs ! i)) [0 ..< length xs]"

fun own_props :: "jsval \<Rightarrow> props" where
  "own_props (JObj ps) = ps"
| "own_props (JArr xs) = indexed xs"
| "own_props (JStr s) = indexed (map (\<lambda>c. JStr [c]) s)"
| "own_props v = []"

text \<open>
  \<^verbatim>\<open>Object.assign(target, source)\<close> on a fresh target: every own property of the source
  is written to the target, replacing the value of a name the target has and appending
  a new name.
\<close>

definition assign :: "props \<Rightarrow> jsval \<Rightarrow> props" where
  "assign target source = fold (\<lambda>(k, v). AList.update k v) (own_props source) target"

section \<open>What the program takes from its environment\<close>

text \<open>
  The program calls functions that are not code of this repository. They are parameters
  of the model, collected in one record:
  \<^item> \<open>formatRequest\<close>, \<open>formatResponse\<close> of the package
    \<^verbatim>\<open>@softonic/http-log-format\<close>, taken as pure functions from an object to a new
    object;
  \<^item> \<open>URL_parse\<close>, Node's \<^verbatim>\<open>url.parse\<close> on a string: the parsed url, of which the
    program reads \<open>host\<close> and \<open>path\<close>, or the \<^verbatim>\<open>TypeError\<close> that \<^verbatim>\<open>url.parse\<close>
    throws on a string it rejects (\<^verbatim>\<open>http://[::1\<close> is one);
  \<^item> \<open>Date_parse\<close>, the time value (milliseconds since the epoch) of a date string,
    \<open>None\<close> for a string that is not a date (\<^verbatim>\<open>NaN\<close> in JavaScript);
  \<^item> \<open>toISOString\<close>, the ISO-8601 notation of a time value;
  \<^item> \<open>pick_special\<close> and \<open>omit_path\<close>, what lodash's \<^verbatim>\<open>pick\<close> and \<^verbatim>\<open>omit\<close> do with
    the names they do not treat as plain property names (section \<open>Header filtering\<close>).

  The reading of the clock by \<^verbatim>\<open>new Date()\<close> is the argument \<open>now\<close> of the functions
  that do it.
\<close>

record urlObject =
  host :: jsval
  path :: jsval

record runtime =
  formatRequest :: "props \<Rightarrow> props"
  formatResponse :: "props \<Rightarrow> props"
  URL_parse :: "string \<Rightarrow> exn + urlObject"
  Date_parse :: "string \<Rightarrow> int option"
  toISOString :: "int \<Rightarrow> string"
  pick_special :: "jsval \<Rightarrow> string \<Rightarrow> props \<Rightarrow> props"
  omit_path :: "string \<Rightarrow> props \<Rightarrow> props"

text \<open>
  \<^verbatim>\<open>new Date(v).getTime()\<close>: the time value of the date made from \<open>v\<close>, \<open>None\<close> when
  the date is invalid. A number is taken as the time value when it is within the
  \<open>8.64 \<times> 10\<^sup>1\<^sup>5\<close> milliseconds a date can be from the epoch, \<^verbatim>\<open>undefined\<close> gives an
  invalid date, \<^verbatim>\<open>null\<close> and booleans convert to numbers, everything else is
  converted to a string and parsed.
\<close>

fun Date_getTime :: "runtime \<Rightarrow> jsval \<Rightarrow> int option" where
  "Date_getTime rt JUndefined = None"
| "Date_getTime rt JNull = Some 0"
| "Date_getTime rt (JBool b) = Some (if b then 1 else 0)"
| "Date_getTime rt (JNum n) = (if \<bar>n\<bar> \<le> 8640000000000000 then Some n else None)"
| "Date_getTime rt JNaN = None"
| "Date_getTime rt v = Date_parse rt (js_toString v)"

text \<open>
  \<^verbatim>\<open>String.prototype.toUpperCase\<close> on the letters \<^verbatim>\<open>a\<close> to \<^verbatim>\<open>z\<close>; the characters of
  an HTTP method are ASCII.
\<close>

definition upper_char :: "char \<Rightarrow> char" where
  "upper_char c =
     (case map_of (zip ''abcdefghijklmnopqrstuvwxyz'' ''ABCDEFGHIJKLMNOPQRSTUVWXYZ'') c of
        Some C \<Rightarrow> C
      | None \<Rightarrow> c)"

definition toUpperCase :: "string \<Rightarrow> string" where
  "toUpperCase s = map upper_char s"

section \<open>Header filtering\<close>

text \<open>
  lodash's \<^verbatim>\<open>pick\<close> and \<^verbatim>\<open>omit\<close> are not code of this repository. They are modelled
  from lodash 4.17 on the names they treat as plain property names, and left to the
  parameters \<open>pick_special\<close> and \<open>omit_path\<close> elsewhere.

  A list of names is an array, each element converted to a property key (the lists of
  the program are lists of strings; an element that is itself an array would be a path
  for lodash); a value that is not an array is one name, so an omitted list is the one
  name \<^verbatim>\<open>undefined\<close>.
\<close>

definition names_of :: "jsval \<Rightarrow> string list" where
  "names_of paths = (case paths of JArr xs \<Rightarrow> map js_toString xs | _ \<Rightarrow> [js_toString paths])"

text \<open>
  lodash reads a name as a path into nested objects when the name is not a property of
  the object and has the syntax of a path; a name without \<^verbatim>\<open>.\<close> and \<^verbatim>\<open>[\<close> never has.
\<close>

definition path_syntax :: "string \<Rightarrow> bool" where
  "path_syntax k = (CHR ''.'' \<in> set k \<or> CHR ''['' \<in> set k)"

text \<open>
  The names of the properties that every plain object inherits from
  \<^verbatim>\<open>Object.prototype\<close>, and the names that \<^verbatim>\<open>pick\<close> refuses to set in its result from
  version 4.17.17 on.
\<close>

definition Object_prototype_names :: "string list" where
  "Object_prototype_names =
     [''constructor'', ''__defineGetter__'', ''__defineSetter__'', ''hasOwnProperty'',
      ''__lookupGetter__'', ''__lookupSetter__'', ''isPrototypeOf'',
      ''propertyIsEnumerable'', ''toString'', ''valueOf'', ''__proto__'',
      ''toLocaleString'']"

definition guarded_names :: "string list" where
  "guarded_names = [''__proto__'', ''constructor'', ''prototype'']"

text \<open>
  One name of \<^verbatim>\<open>pick(object, names)\<close> on a plain object: \<^verbatim>\<open>pick\<close> tests the name with
  \<^verbatim>\<open>hasIn\<close>, which finds the object's own properties and the inherited ones, and sets
  the property in the result, at the end when the result does not have it yet. An own
  property is copied; an inherited one is copied too, with the inherited function as
  its value; a name that the object neither has nor inherits and that is no path is
  skipped. A guarded name that the object has or inherits (set or refused, by the
  version of lodash), a name with the syntax of a path that is not a property of the
  object, and every name on a value that is not a plain object are left to
  \<open>pick_special\<close>.
\<close>

definition pick_name :: "runtime \<Rightarrow> jsval \<Rightarrow> string \<Rightarrow> props \<Rightarrow> props" where
  "pick_name rt object k result =
     (case object of
        JObj ps \<Rightarrow>
          (if k \<in> fst ` set ps \<or> k \<in> set Object_prototype_names then
             (if k \<in> set guarded_names then pick_special rt object k result
              else AList.update k (if k \<in> fst ` set ps then lookup ps k else JFun k) result)
           else if path_syntax k then pick_special rt object k result
           else result)
      | _ \<Rightarrow> pick_special rt object k result)"

definition pick :: "runtime \<Rightarrow> jsval \<Rightarrow> jsval \<Rightarrow> props" where
  "pick rt object paths =
     (if nullish object then [] else fold (pick_name rt object) (names_of paths) [])"

text \<open>
  \<^verbatim>\<open>omit(object, names)\<close> copies the enumerable properties of the object and then
  unsets the names, last name first. A name that is a property of the object, or has
  not the syntax of a path, is deleted from the copy; a path is left to \<open>omit_path\<close>.
\<close>

definition omit_name :: "runtime \<Rightarrow> jsval \<Rightarrow> string \<Rightarrow> props \<Rightarrow> props" where
  "omit_name rt object k result =
     (if path_syntax k \<and> k \<notin> fst ` set (own_props object) then omit_path rt k result
      else AList.delete k result)"

definition omit :: "runtime \<Rightarrow> jsval \<Rightarrow> jsval \<Rightarrow> props" where
  "omit rt object paths =
     (if nullish object then []
      else fold (omit_name rt object) (rev (names_of paths)) (own_props object))"

text \<open>
  \<^verbatim>\<open>filterHeaders({ headers, whitelistHeaders, blacklistHeaders })\<close>, lines 13-16. Every
  call passes an object literal, so the destructuring of the argument cannot fail and
  the three properties are taken as three arguments.
\<close>

definition filterHeaders :: "runtime \<Rightarrow> jsval \<Rightarrow> jsval \<Rightarrow> jsval \<Rightarrow> props" where
  "filterHeaders rt headers whitelistHeaders blacklistHeaders =
     (let whitelistedHeaders =
            (if truthy whitelistHeaders then JObj (pick rt headers whitelistHeaders)
             else headers)
      in omit rt whitelistedHeaders blacklistHeaders)"

section \<open>Normalisation of requests and responses\<close>

text \<open>
  \<^verbatim>\<open>getLoggableRequestFromAxiosResponse({ axiosResponse, whitelistRequestHeaders,
  blacklistRequestHeaders })\<close>, lines 25-41. The argument is one value, destructured on
  entry: \<open>logError\<close> passes a value that is not an object literal.
\<close>

definition getLoggableRequestFromAxiosResponse :: "runtime \<Rightarrow> jsval \<Rightarrow> exn + jsval" where
  "getLoggableRequestFromAxiosResponse rt options =
     then_do (get options ''axiosResponse'') (\<lambda>axiosResponse.
     then_do (get options ''whitelistRequestHeaders'') (\<lambda>whitelistRequestHeaders.
     then_do (get options ''blacklistRequestHeaders'') (\<lambda>blacklistRequestHeaders.
     then_do (get axiosResponse ''config'') (\<lambda>config.
     then_do (get config ''timestamp'') (\<lambda>timestamp.
     then_do (get axiosResponse ''request'') (\<lambda>request.
       let nativeRequest = assign [(''timestamp'', timestamp)] request;
           loggableRequest = formatRequest rt nativeRequest
       in Inr (JObj (AList.update ''headers''
                 (JObj (filterHeaders rt (lookup loggableRequest ''headers'')
                          whitelistRequestHeaders blacklistRequestHeaders))
                 loggableRequest))))))))"

text \<open>
  \<^verbatim>\<open>createClientRequestFromConfig(config)\<close>, lines 49-58. \<^verbatim>\<open>url.parse\<close> throws a
  \<^verbatim>\<open>TypeError\<close> on an argument that is not a string and on a string it rejects, and
  the call of \<^verbatim>\<open>toUpperCase\<close> throws one on a method that is not a string.
\<close>

definition createClientRequestFromConfig :: "runtime \<Rightarrow> jsval \<Rightarrow> exn + jsval" where
  "createClientRequestFromConfig rt config =
     then_do (get config ''timestamp'') (\<lambda>timestamp.
     then_do (get config ''headers'') (\<lambda>headers.
     then_do (get config ''url'') (\<lambda>url.
     then_do (case url of JStr s \<Rightarrow> URL_parse rt s | _ \<Rightarrow> Inl TypeError) (\<lambda>parsedUrl.
     then_do (get config ''method'') (\<lambda>method.
     then_do (case method of JStr m \<Rightarrow> Inr (toUpperCase m) | _ \<Rightarrow> Inl TypeError) (\<lambda>upper.
       Inr (JObj [(''timestamp'', timestamp),
                  (''method'', JStr upper),
                  (''url'', path parsedUrl),
                  (''headers'', JObj (assign [(''host'', host parsedUrl)] headers))])))))))"

text \<open>
  The object \<^verbatim>\<open>pseudoNativeResponse\<close> of lines 76-81. \<^verbatim>\<open>now - t\<close> is the difference of
  the two time values, and \<^verbatim>\<open>NaN\<close> when the request's timestamp is not a date.
\<close>

definition pseudoNativeResponse :: "runtime \<Rightarrow> int \<Rightarrow> jsval \<Rightarrow> jsval \<Rightarrow> jsval \<Rightarrow> props" where
  "pseudoNativeResponse rt now requestTimestamp status headers =
     [(''timestamp'', JStr (toISOString rt now)),
      (''statusCode'', status),
      (''headers'', headers),
      (''responseTime'',
         (case Date_getTime rt requestTimestamp of Some t \<Rightarrow> JNum (now - t) | None \<Rightarrow> JNaN))]"

text \<open>
  \<^verbatim>\<open>getLoggableResponseFromAxiosResponse({ axiosResponse, whitelistResponseHeaders,
  blacklistResponseHeaders })\<close>, lines 68-91.
\<close>

definition getLoggableResponseFromAxiosResponse ::
  "runtime \<Rightarrow> int \<Rightarrow> jsval \<Rightarrow> exn + jsval" where
  "getLoggableResponseFromAxiosResponse rt now options =
     then_do (get options ''axiosResponse'') (\<lambda>axiosResponse.
     then_do (get options ''whitelistResponseHeaders'') (\<lambda>whitelistResponseHeaders.
     then_do (get options ''blacklistResponseHeaders'') (\<lambda>blacklistResponseHeaders.
     then_do (get axiosResponse ''config'') (\<lambda>config.
     then_do (get config ''timestamp'') (\<lambda>requestTimestamp.
     then_do (get axiosResponse ''status'') (\<lambda>status.
     then_do (get axiosResponse ''headers'') (\<lambda>headers.
       let loggableResponse =
             formatResponse rt (pseudoNativeResponse rt now requestTimestamp status headers)
       in Inr (JObj (AList.update ''headers''
                 (JObj (filterHeaders rt (lookup loggableResponse ''headers'')
                          whitelistResponseHeaders blacklistResponseHeaders))
                 loggableResponse)))))))))"

text \<open>\<^verbatim>\<open>a || b\<close>, where \<open>b\<close> is evaluated only when \<open>a\<close> is falsy.\<close>

definition or_else :: "jsval \<Rightarrow> (exn + jsval) \<Rightarrow> exn + jsval" where
  "or_else a b = (if truthy a then Inr a else b)"

text \<open>\<^verbatim>\<open>makeRequestLine(request)\<close>, lines 99-106.\<close>

definition makeRequestLine :: "jsval \<Rightarrow> exn + string" where
  "makeRequestLine request =
     then_do (get request ''headers'') (\<lambda>h.
     then_do (or_else h (then_do (get request ''_headers'') (\<lambda>h'. or_else h' (Inr (JObj []))))) (\<lambda>headers.
     then_do (get headers ''host'') (\<lambda>hh.
     then_do (or_else hh (Inr (JStr []))) (\<lambda>host.
     then_do (get request ''url'') (\<lambda>u.
     then_do (or_else u (get request ''path'')) (\<lambda>url.
     then_do (get request ''method'') (\<lambda>method.
       Inr (js_toString method @ '' '' @ js_toString host @ js_toString url))))))))"

section \<open>The interceptors\<close>

text \<open>
  The logger is the list of the calls made to it, oldest first: the method called, the
  payload and the message. The options of \<^verbatim>\<open>axiosBunyan\<close> are the four header lists,
  \<^verbatim>\<open>undefined\<close> when not given.
\<close>

datatype level = Info | Error

type_synonym logger = "(level \<times> jsval \<times> string) list"

record options =
  whitelistRequestHeaders :: jsval
  blacklistRequestHeaders :: jsval
  whitelistResponseHeaders :: jsval
  blacklistResponseHeaders :: jsval

text \<open>The promise an interceptor returns.\<close>

datatype promise = Rejected jsval | Fulfilled jsval

text \<open>
  Sequencing inside an interceptor: an exception leaves the interceptor before the
  logger is called, with the logger as it was.
\<close>

definition run :: "exn + 'a \<Rightarrow> logger \<Rightarrow> ('a \<Rightarrow> (exn + 'b) \<times> logger) \<Rightarrow> (exn + 'b) \<times> logger" where
  "run m lg f = (case m of Inl e \<Rightarrow> (Inl e, lg) | Inr x \<Rightarrow> f x)"

text \<open>\<^verbatim>\<open>logResponse(axiosResponse)\<close>, lines 127-147.\<close>

definition logResponse ::
  "options \<Rightarrow> runtime \<Rightarrow> int \<Rightarrow> jsval \<Rightarrow> logger \<Rightarrow> (exn + jsval) \<times> logger" where
  "logResponse opts rt now axiosResponse lg =
     run (getLoggableRequestFromAxiosResponse rt
            (JObj [(''axiosResponse'', axiosResponse),
                   (''whitelistRequestHeaders'', whitelistRequestHeaders opts),
                   (''blacklistRequestHeaders'', blacklistRequestHeaders opts)])) lg (\<lambda>request.
     run (getLoggableResponseFromAxiosResponse rt now
            (JObj [(''axiosResponse'', axiosResponse),
                   (''whitelistResponseHeaders'', whitelistResponseHeaders opts),
                   (''blacklistResponseHeaders'', blacklistResponseHeaders opts)])) lg (\<lambda>response.
     run (makeRequestLine request) lg (\<lambda>requestLine.
     run (get response ''statusCode'') lg (\<lambda>statusCode.
       (Inr axiosResponse,
        lg @ [(Info, JObj [(''request'', request), (''response'', response)],
               requestLine @ '' '' @ js_toString statusCode)])))))"

text \<open>
  \<^verbatim>\<open>logError(error)\<close>, lines 149-173. The options of \<^verbatim>\<open>axiosBunyan\<close> are in scope but
  not used: \<^verbatim>\<open>error.response\<close> itself is passed where the two normalisers expect the
  object \<^verbatim>\<open>{ axiosResponse, ... }\<close>.
\<close>

definition logError ::
  "options \<Rightarrow> runtime \<Rightarrow> int \<Rightarrow> jsval \<Rightarrow> logger \<Rightarrow> (exn + promise) \<times> logger" where
  "logError opts rt now error lg =
     run (get error ''response'') lg (\<lambda>response'.
     run (if truthy response' then getLoggableRequestFromAxiosResponse rt response'
          else then_do (get error ''config'') (\<lambda>config.
                 if truthy config then createClientRequestFromConfig rt config
                 else Inr JUndefined)) lg (\<lambda>request.
     run (if truthy request then makeRequestLine request
          else Inr ''Undefined client request'') lg (\<lambda>requestLine.
       if truthy response' then
         run (getLoggableResponseFromAxiosResponse rt now response') lg (\<lambda>response.
         run (get response ''statusCode'') lg (\<lambda>statusCode.
           (Inr (Rejected error),
            lg @ [(Error, JObj [(''request'', request), (''response'', response)],
                   requestLine @ '' '' @ js_toString statusCode)])))
       else
         (Inr (Rejected error),
          lg @ [(Error, JObj [(''request'', request), (''error'', error)],
                 requestLine @ '' ERROR'')]))))"

section \<open>Example inputs\<close>

text \<open>
  A runtime for the examples: formatters that keep every property, the values of
  \<^verbatim>\<open>url.parse\<close> and of the date functions on the strings of the examples, and a lodash
  whose special names change nothing (no example has one).
\<close>

definition example_URL_parse :: "string \<Rightarrow> exn + urlObject" where
  "example_URL_parse s =
     (if s = ''http://example.com/x''
      then Inr \<lparr>host = JStr ''example.com'', path = JStr ''/x''\<rparr>
      else if s = ''http://[::1'' then Inl TypeError
      else Inr \<lparr>host = JNull, path = JStr s\<rparr>)"

definition example_Date_parse :: "string \<Rightarrow> int option" where
  "example_Date_parse s =
     (if s = ''2024-01-01T00:00:00.000Z'' then Some 1704067200000 else None)"

definition example_runtime :: runtime where
  "example_runtime =
     \<lparr>formatRequest = (\<lambda>r. r),
      formatResponse = (\<lambda>r. r),
      URL_parse = example_URL_parse,
      Date_parse = example_Date_parse,
      toISOString = (\<lambda>t. ''2024-01-01T00:00:00.250Z''),
      pick_special = (\<lambda>object k result. result),
      omit_path = (\<lambda>k result. result)\<rparr>"

definition no_options :: options where
  "no_options =
     \<lparr>whitelistRequestHeaders = JUndefined, blacklistRequestHeaders = JUndefined,
      whitelistResponseHeaders = JUndefined, blacklistResponseHeaders = JUndefined\<rparr>"

text \<open>The config of the spec's example, stamped by the request interceptor.\<close>

definition example_config :: jsval where
  "example_config =
     JObj [(''url'', JStr ''http://example.com/x''),
           (''method'', JStr ''post''),
           (''headers'', JObj [(''auth'', JStr ''t'')]),
           (''timestamp'', JStr ''2024-01-01T00:00:00.000Z'')]"

text \<open>An axios response to that request, and the error axios makes of it when the
  status is not a success.\<close>

definition example_response :: "int \<Rightarrow> jsval" where
  "example_response status =
     JObj [(''status'', JNum status),
           (''headers'', JObj [(''content-type'', JStr ''text/plain''), (''set-cookie'', JStr ''s'')]),
           (''config'', example_config),
           (''request'', JObj [(''method'', JStr ''POST''), (''path'', JStr ''/x''),
                              (''headers'', JObj [(''host'', JStr ''example.com''),
                                                 (''auth'', JStr ''t'')])])]"

definition error_with_response :: jsval where
  "error_with_response =
     JObj [(''message'', JStr ''Request failed with status code 404''),
           (''config'', example_config),
           (''response'', example_response 404)]"

definition error_with_config :: jsval where
  "error_with_config =
     JObj [(''message'', JStr ''connect ECONNREFUSED''), (''config'', example_config)]"

definition error_bare :: jsval where
  "error_bare = JObj [(''message'', JStr ''boom'')]"

text \<open>A config whose headers carry a \<^verbatim>\<open>host\<close> of their own.\<close>

definition config_with_host :: jsval where
  "config_with_host =
     JObj [(''url'', JStr ''http://example.com/x''),
           (''method'', JStr ''get''),
           (''headers'', JObj [(''host'', JStr ''other.example'')]),
           (''timestamp'', JStr ''2024-01-01T00:00:00.000Z'')]"

section \<open>Notions used in the statements\<close>

text \<open>The names of the properties of an object.\<close>

definition keys :: "props \<Rightarrow> string set" where
  "keys ps = fst ` set ps"

text \<open>
  A plain header name: lodash does not read it as a path, and it is not the name of a
  property that every object inherits, nor a guarded name.
\<close>

definition plain_name :: "string \<Rightarrow> bool" where
  "plain_name k =
     (\<not> path_syntax k \<and> k \<notin> set Object_prototype_names \<and> k \<notin> set guarded_names)"

text \<open>
  The value read by \<^verbatim>\<open>v.k\<close> when the read does not throw: \<open>get\<close> throws on
  \<^verbatim>\<open>undefined\<close> and \<^verbatim>\<open>null\<close> and returns \<open>field v k\<close> otherwise (lemma
  \<open>get_field\<close>).
\<close>

fun field :: "jsval \<Rightarrow> string \<Rightarrow> jsval" where
  "field (JObj ps) k = lookup ps k"
| "field v k = JUndefined"

text \<open>
  The request line as the specification words it: the header map is
  \<^verbatim>\<open>request.headers\<close>, falling back to \<^verbatim>\<open>request._headers\<close> and then to an empty
  map; the host is \<^verbatim>\<open>headers.host\<close>, falling back to the empty string; the path is
  \<^verbatim>\<open>request.url\<close>, falling back to \<^verbatim>\<open>request.path\<close>; the line is the method, a
  space, the host and the path.
\<close>

definition request_headers_spec :: "props \<Rightarrow> jsval" where
  "request_headers_spec request =
     (if truthy (lookup request ''headers'') then lookup request ''headers''
      else if truthy (lookup request ''_headers'') then lookup request ''_headers''
      else JObj [])"

definition host_spec :: "props \<Rightarrow> jsval" where
  "host_spec request =
     (if truthy (field (request_headers_spec request) ''host'')
      then field (request_headers_spec request) ''host'' else JStr [])"

definition path_spec :: "props \<Rightarrow> jsval" where
  "path_spec request =
     (if truthy (lookup request ''url'') then lookup request ''url''
      else lookup request ''path'')"

definition requestLine_spec :: "props \<Rightarrow> string" where
  "requestLine_spec request =
     js_toString (lookup request ''method'') @ '' '' @
     js_toString (host_spec request) @ js_toString (path_spec request)"

section \<open>Basic facts\<close>

lemma then_do_simps [simp]: "then_do (Inl e) f = Inl e" "then_do (Inr x) f = f x"
  by (simp_all add: then_do_def)

lemma run_simps [simp]: "run (Inl e) lg f = (Inl e, lg)" "run (Inr x) lg f = f x"
  by (simp_all add: run_def)

lemma get_field: "get v k = (if nullish v then Inl TypeError else Inr (field v k))"
  by (cases v) simp_all

lemma truthy_not_nullish: "truthy v \<Longrightarrow> \<not> nullish v"
  by (cases v) simp_all

lemma or_else_simps [simp]:
  "truthy a \<Longrightarrow> or_else a b = Inr a" "\<not> truthy a \<Longrightarrow> or_else a b = b"
  by (simp_all add: or_else_def)

lemma keys_dom: "keys ps = dom (map_of ps)"
  by (simp add: keys_def dom_map_of_conv_image_fst)

lemma lookup_update_other: "k \<noteq> k' \<Longrightarrow> lookup (AList.update k' v ps) k = lookup ps k"
  by (simp add: lookup_def update_conv')

subsection \<open>\<open>pick\<close> and \<open>omit\<close> on plain names\<close>

lemma names_of_strings [simp]: "names_of (JArr (map JStr ws)) = ws"
  by (simp add: names_of_def comp_def)

lemma keys_update: "keys (AList.update k v ps) = insert k (keys ps)"
  by (simp add: keys_dom update_conv')

lemma pick_name_plain:
  "plain_name k \<Longrightarrow>
   pick_name rt (JObj H) k r = (if k \<in> keys H then AList.update k (lookup H k) r else r)"
  by (simp add: pick_name_def plain_name_def keys_def)

lemma keys_fold_pick:
  "\<forall>k\<in>set ks. plain_name k \<Longrightarrow>
   keys (fold (pick_name rt (JObj H)) ks r) = keys r \<union> (set ks \<inter> keys H)"
proof (induction ks arbitrary: r)
  case Nil
  then show ?case by simp
next
  case (Cons k ks)
  then have k: "plain_name k" and ks: "\<forall>k\<in>set ks. plain_name k"
    by simp_all
  show ?case
    using Cons.IH [OF ks] by (auto simp: pick_name_plain [OF k] keys_update)
qed

lemma keys_pick:
  "\<forall>w\<in>set ws. plain_name w \<Longrightarrow>
   keys (pick rt (JObj H) (JArr (map JStr ws))) = set ws \<inter> keys H"
  by (simp add: pick_def keys_fold_pick) (simp add: keys_def)

lemma omit_name_plain: "\<not> path_syntax k \<Longrightarrow> omit_name rt object k r = AList.delete k r"
  by (simp add: omit_name_def)

lemma fold_omit_name:
  "\<forall>k\<in>set ks. \<not> path_syntax k \<Longrightarrow>
   fold (omit_name rt object) ks r = filter (\<lambda>(k, v). k \<notin> set ks) r"
proof (induction ks arbitrary: r)
  case Nil
  then show ?case by simp
next
  case (Cons k ks)
  then have k: "\<not> path_syntax k" and ks: "\<forall>k\<in>set ks. \<not> path_syntax k"
    by simp_all
  show ?case
    by (auto simp: Cons.IH [OF ks] omit_name_plain [OF k] AList.delete_eq intro!: filter_cong)
qed

lemma omit_plain:
  "\<forall>b\<in>set bs. \<not> path_syntax b \<Longrightarrow>
   omit rt (JObj H) (JArr (map JStr bs)) = filter (\<lambda>(k, v). k \<notin> set bs) H"
  using fold_omit_name [of "rev bs" rt "JObj H" H] by (simp add: omit_def)

lemma omit_undefined:
  "omit rt (JObj H) JUndefined = filter (\<lambda>(k, v). k \<noteq> ''undefined'') H"
  using fold_omit_name [of "[''undefined'']" rt "JObj H" H]
  by (simp add: omit_def names_of_def path_syntax_def)

lemma keys_filter: "keys (filter (\<lambda>(k, v). k \<notin> S) ps) = keys ps - S"
  by (auto simp: keys_def image_iff)

subsection \<open>\<open>Object.assign\<close>\<close>

text \<open>On a source without repeated names, the properties of the source win.\<close>

lemma map_of_fold_update:
  "distinct (map fst xs) \<Longrightarrow>
   map_of (fold (\<lambda>(k, v). AList.update k v) xs t) = map_of t ++ map_of xs"
proof (induction xs arbitrary: t)
  case Nil
  then show ?case by simp
next
  case (Cons x xs)
  obtain k v where x: "x = (k, v)" by (cases x)
  from Cons.prems x have k: "map_of xs k = None" and d: "distinct (map fst xs)"
    by (auto simp: map_of_eq_None_iff)
  have "map_of (fold (\<lambda>(k, v). AList.update k v) (x # xs) t)
        = map_of (AList.update k v t) ++ map_of xs"
    using Cons.IH [OF d, of "AList.update k v t"] by (simp add: x)
  also have "\<dots> = (map_of t)(k \<mapsto> v) ++ map_of xs"
    by (simp only: update_conv')
  also have "\<dots> = map_of t ++ map_of (x # xs)"
    using k by (auto simp: x map_add_def fun_eq_iff split: option.splits)
  finally show ?case .
qed

lemma map_of_assign:
  "distinct (map fst (own_props source)) \<Longrightarrow>
   map_of (assign target source) = map_of target ++ map_of (own_props source)"
  by (simp add: assign_def map_of_fold_update)

subsection \<open>The normalisers on a well-formed exchange\<close>

lemma getLoggableRequest_ok:
  assumes "\<not> nullish r" and "\<not> nullish (field r ''config'')"
  shows "\<exists>ps. getLoggableRequestFromAxiosResponse rt
            (JObj [(''axiosResponse'', r), (''whitelistRequestHeaders'', W),
                   (''blacklistRequestHeaders'', B)]) = Inr (JObj ps)"
  using assms
  by (simp add: getLoggableRequestFromAxiosResponse_def get_field lookup_def Let_def)

lemma getLoggableResponse_ok:
  assumes "\<not> nullish r" and "\<not> nullish (field r ''config'')"
  shows "\<exists>ps. getLoggableResponseFromAxiosResponse rt now
            (JObj [(''axiosResponse'', r), (''whitelistResponseHeaders'', W),
                   (''blacklistResponseHeaders'', B)]) = Inr (JObj ps)"
  using assms
  by (simp add: getLoggableResponseFromAxiosResponse_def get_field lookup_def Let_def)

lemma makeRequestLine_eq: "makeRequestLine (JObj request) = Inr (requestLine_spec request)"
  by (simp add: makeRequestLine_def requestLine_spec_def host_spec_def path_spec_def
      request_headers_spec_def get_field truthy_not_nullish)

text \<open>
  On an exchange that has a config, \<open>logResponse\<close> completes: it calls \<^verbatim>\<open>logger.info\<close>
  once and returns the exchange.
\<close>

lemma logResponse_ok:
  assumes "\<not> nullish axiosResponse" and "\<not> nullish (field axiosResponse ''config'')"
  shows "\<exists>payload message.
           logResponse opts rt now axiosResponse lg =
             (Inr axiosResponse, lg @ [(Info, payload, message)])"
proof -
  obtain req where 1: "getLoggableRequestFromAxiosResponse rt
            (JObj [(''axiosResponse'', axiosResponse),
                   (''whitelistRequestHeaders'', whitelistRequestHeaders opts),
                   (''blacklistRequestHeaders'', blacklistRequestHeaders opts)]) = Inr (JObj req)"
    using getLoggableRequest_ok [OF assms] by blast
  obtain resp where 2: "getLoggableResponseFromAxiosResponse rt now
            (JObj [(''axiosResponse'', axiosResponse),
                   (''whitelistResponseHeaders'', whitelistResponseHeaders opts),
                   (''blacklistResponseHeaders'', blacklistResponseHeaders opts)]) = Inr (JObj resp)"
    using getLoggableResponse_ok [OF assms] by blast
  show ?thesis
    by (simp add: logResponse_def 1 2 makeRequestLine_eq)
qed

text \<open>
  Without a response, \<open>logError\<close> rejects with the error it was given, whenever the
  error has no config or has one whose url is a string that \<^verbatim>\<open>url.parse\<close> parses and
  whose method is a string.
\<close>

lemma logError_rejects_without_response:
  assumes "\<not> nullish error" and "\<not> truthy (field error ''response'')"
      and "\<not> truthy (field error ''config'')
           \<or> (\<exists>u p m. field (field error ''config'') ''url'' = JStr u
                  \<and> URL_parse rt u = Inr p
                  \<and> field (field error ''config'') ''method'' = JStr m)"
  shows "fst (logError opts rt now error lg) = Inr (Rejected error)"
proof (cases "truthy (field error ''config'')")
  case False
  then show ?thesis
    using assms(1,2) by (simp add: logError_def get_field)
next
  case True
  with assms(3) obtain u p m where um: "field (field error ''config'') ''url'' = JStr u"
      "URL_parse rt u = Inr p" "field (field error ''config'') ''method'' = JStr m"
    by blast
  from True have nn: "\<not> nullish (field error ''config'')"
    by (rule truthy_not_nullish)
  have "\<exists>ps. createClientRequestFromConfig rt (field error ''config'') = Inr (JObj ps)"
    using nn um by (simp add: createClientRequestFromConfig_def get_field)
  then obtain ps where c: "createClientRequestFromConfig rt (field error ''config'') = Inr (JObj ps)"
    by blast
  show ?thesis
    using assms(1,2) True by (simp add: logError_def get_field c makeRequestLine_eq)
qed

section \<open>The claims\<close>

text \<open>
  C1. Claim: every invocation of \<open>logError\<close>, whether the error carries a response, only
  a config, or neither, ends in a rejected promise carrying the original error. The
  code does not do this for an error that carries a response: on the error axios makes
  of a 404 response, \<open>logError\<close> passes \<^verbatim>\<open>error.response\<close> where
  \<open>getLoggableRequestFromAxiosResponse\<close> destructures \<^verbatim>\<open>{ axiosResponse, ... }\<close>, the
  read of \<^verbatim>\<open>axiosResponse.config\<close> throws, and \<^verbatim>\<open>Promise.reject(error)\<close> is never
  reached. The caller receives a \<^verbatim>\<open>TypeError\<close> in place of the original error.
\<close>

theorem logError_response_throws:
  "fst (logError opts rt now error_with_response lg) = Inl TypeError"
  by (simp add: logError_def error_with_response_def example_response_def lookup_def
      getLoggableRequestFromAxiosResponse_def)

text \<open>
  C2. Claim: on an error that carries a response, \<open>logError\<close> makes exactly one call of
  \<^verbatim>\<open>logger.error\<close>, with the normalised request and response and the message
  \<^verbatim>\<open>"{line} {statusCode}"\<close>. The code makes no call at all on the error axios makes of
  a 404 response: the exception of C1 is thrown before the logger is reached, and the
  logger is left as it was.
\<close>

theorem logError_response_not_logged:
  "snd (logError opts rt now error_with_response lg) = lg"
  by (simp add: logError_def error_with_response_def example_response_def lookup_def
      getLoggableRequestFromAxiosResponse_def)

text \<open>
  C3. Claim: for all header maps \<open>H\<close>, allow-lists \<open>W\<close> and deny-lists \<open>B\<close>, the names
  of \<open>filterHeaders H W B\<close> are among those of \<open>W\<close> that \<open>H\<close> has, without those of \<open>B\<close>,
  when \<open>W\<close> is given. They are not for every \<open>W\<close>: lodash's \<^verbatim>\<open>pick\<close> also takes the
  properties an object inherits, so the allow-list \<^verbatim>\<open>['toString']\<close> on the headers
  \<^verbatim>\<open>{host: 'x'}\<close> gives a result with the name \<^verbatim>\<open>toString\<close>, which is no header of the
  map.
\<close>

theorem filterHeaders_inherited_counterexample:
  "filterHeaders example_runtime (JObj [(''host'', JStr ''x'')]) (JArr [JStr ''toString''])
     JUndefined = [(''toString'', JFun ''toString'')]
   \<and> ''toString'' \<notin> keys [(''host'', JStr ''x'')]"
  by (simp add: filterHeaders_def pick_def pick_name_def omit_def omit_name_def names_of_def
      path_syntax_def Object_prototype_names_def guarded_names_def keys_def)

text \<open>
  C3 as amended. For every header map \<open>H\<close>, every allow-list \<open>W\<close> of plain names (strings
  without \<^verbatim>\<open>.\<close> and \<^verbatim>\<open>[\<close>, which lodash could read as paths, that are not names of
  \<^verbatim>\<open>Object.prototype\<close> nor \<^verbatim>\<open>prototype\<close>) and every deny-list \<open>B\<close> of strings without
  \<^verbatim>\<open>.\<close> and \<^verbatim>\<open>[\<close>: when \<open>W\<close> is given, the names of the result are among those of \<open>W\<close>
  that \<open>H\<close> has, without those of \<open>B\<close> (with \<open>B\<close> given or omitted); when \<open>W\<close> is omitted
  they are the names of \<open>H\<close> without those of \<open>B\<close>; when both are omitted the result is
  \<open>H\<close>, provided \<open>H\<close> has no header of the name \<^verbatim>\<open>undefined\<close> (the name lodash makes of an
  omitted list); and the deny-list is applied after the allow-list: a name in both
  lists is not in the result.
\<close>

theorem filterHeaders_plain_names:
  assumes "\<forall>w\<in>set ws. plain_name w" and "\<forall>b\<in>set bs. \<not> path_syntax b"
  shows "keys (filterHeaders rt (JObj H) (JArr (map JStr ws)) (JArr (map JStr bs)))
           \<subseteq> (set ws \<inter> keys H) - set bs
       \<and> keys (filterHeaders rt (JObj H) (JArr (map JStr ws)) JUndefined)
           \<subseteq> set ws \<inter> keys H
       \<and> keys (filterHeaders rt (JObj H) JUndefined (JArr (map JStr bs))) = keys H - set bs
       \<and> (''undefined'' \<notin> keys H \<longrightarrow> filterHeaders rt (JObj H) JUndefined JUndefined = H)
       \<and> (\<forall>k\<in>set ws \<inter> set bs.
            k \<notin> keys (filterHeaders rt (JObj H) (JArr (map JStr ws)) (JArr (map JStr bs))))"
proof -
  let ?picked = "pick rt (JObj H) (JArr (map JStr ws))"
  have p: "keys ?picked = set ws \<inter> keys H"
    using assms(1) by (rule keys_pick)
  have 1: "keys (filterHeaders rt (JObj H) (JArr (map JStr ws)) (JArr (map JStr bs)))
             = (set ws \<inter> keys H) - set bs"
    by (simp add: filterHeaders_def omit_plain [OF assms(2)] keys_filter p)
  have 2: "keys (filterHeaders rt (JObj H) (JArr (map JStr ws)) JUndefined)
             = (set ws \<inter> keys H) - {''undefined''}"
    using keys_filter [of "{''undefined''}" ?picked]
    by (simp add: filterHeaders_def omit_undefined p)
  have 3: "keys (filterHeaders rt (JObj H) JUndefined (JArr (map JStr bs))) = keys H - set bs"
    by (simp add: filterHeaders_def omit_plain [OF assms(2)] keys_filter)
  have 4: "filterHeaders rt (JObj H) JUndefined JUndefined = H" if "''undefined'' \<notin> keys H"
  proof -
    have "filter (\<lambda>(k, v). k \<noteq> ''undefined'') H = H"
      using that by (force simp: keys_def filter_id_conv)
    then show ?thesis
      by (simp add: filterHeaders_def omit_undefined)
  qed
  from 1 2 3 4 show ?thesis by auto
qed

theorem filterHeaders_plain_names_witness:
  "plain_name ''auth'' \<and> plain_name ''host'' \<and> plain_name ''x-missing''
   \<and> \<not> path_syntax ''auth''
   \<and> keys (filterHeaders example_runtime
        (JObj [(''host'', JStr ''example.com''), (''auth'', JStr ''t''), (''cookie'', JStr ''c'')])
        (JArr (map JStr [''auth'', ''host'', ''x-missing'']))
        (JArr (map JStr [''auth''])))
     \<subseteq> (set [''auth'', ''host'', ''x-missing'']
          \<inter> keys [(''host'', JStr ''example.com''), (''auth'', JStr ''t''), (''cookie'', JStr ''c'')])
         - set [''auth'']
   \<and> filterHeaders example_runtime
        (JObj [(''host'', JStr ''example.com''), (''auth'', JStr ''t''), (''cookie'', JStr ''c'')])
        (JArr (map JStr [''auth'', ''host'', ''x-missing'']))
        (JArr (map JStr [''auth'']))
      = [(''host'', JStr ''example.com'')]"
proof -
  have h: "\<forall>w\<in>set [''auth'', ''host'', ''x-missing'']. plain_name w"
      "\<forall>b\<in>set [''auth'']. \<not> path_syntax b"
    by (simp_all add: plain_name_def path_syntax_def Object_prototype_names_def
        guarded_names_def)
  have e: "filterHeaders example_runtime
        (JObj [(''host'', JStr ''example.com''), (''auth'', JStr ''t''), (''cookie'', JStr ''c'')])
        (JArr (map JStr [''auth'', ''host'', ''x-missing'']))
        (JArr (map JStr [''auth'']))
      = [(''host'', JStr ''example.com'')]"
    by (simp add: filterHeaders_def pick_def pick_name_def omit_def omit_name_def names_of_def
        path_syntax_def Object_prototype_names_def guarded_names_def lookup_def)
  have p: "plain_name ''auth'' \<and> plain_name ''host'' \<and> plain_name ''x-missing''
           \<and> \<not> path_syntax ''auth''"
    using h by simp
  from p e
    filterHeaders_plain_names [OF h, of example_runtime
      "[(''host'', JStr ''example.com''), (''auth'', JStr ''t''), (''cookie'', JStr ''c'')]"]
  show ?thesis by blast
qed

text \<open>
  C4. Claim: in \<open>createClientRequestFromConfig\<close> the \<^verbatim>\<open>host\<close> derived from the url takes
  precedence over a \<^verbatim>\<open>host\<close> set in \<^verbatim>\<open>config.headers\<close>. It does not: the headers are
  \<^verbatim>\<open>Object.assign({ host: parsedUrl.host }, headers)\<close>, so the url's host is the
  default and the config's headers win on every name, \<^verbatim>\<open>host\<close> included.
\<close>

theorem host_precedence_counterexample:
  "createClientRequestFromConfig example_runtime config_with_host =
     Inr (JObj [(''timestamp'', JStr ''2024-01-01T00:00:00.000Z''),
                (''method'', JStr ''GET''),
                (''url'', JStr ''/x''),
                (''headers'', JObj [(''host'', JStr ''other.example'')])])
   \<and> URL_parse example_runtime ''http://example.com/x''
       = Inr \<lparr>host = JStr ''example.com'', path = JStr ''/x''\<rparr>"
  by (simp add: createClientRequestFromConfig_def config_with_host_def example_runtime_def
      example_URL_parse_def lookup_def assign_def toUpperCase_def upper_char_def)

text \<open>
  C4 as amended. For every config whose url is a string that \<^verbatim>\<open>url.parse\<close> parses
  (it throws on some, and \<open>createClientRequestFromConfig\<close> with it) and whose method is
  a string, the result of \<open>createClientRequestFromConfig\<close> has the headers of the
  config and a \<^verbatim>\<open>host\<close>: every name of \<^verbatim>\<open>config.headers\<close> keeps the config's value,
  \<^verbatim>\<open>host\<close> included, and \<^verbatim>\<open>host\<close> is the host component of the url when
  \<^verbatim>\<open>config.headers\<close> has no \<^verbatim>\<open>host\<close> of its own.
\<close>

theorem createClientRequestFromConfig_headers:
  assumes "field config ''url'' = JStr u" and "URL_parse rt u = Inr parsedUrl"
      and "field config ''method'' = JStr m"
      and "own_props (field config ''headers'') = hs0" and "distinct (map fst hs0)"
  shows "\<exists>hs. createClientRequestFromConfig rt config =
               Inr (JObj [(''timestamp'', field config ''timestamp''),
                          (''method'', JStr (toUpperCase m)),
                          (''url'', path parsedUrl),
                          (''headers'', JObj hs)])
            \<and> keys hs = insert ''host'' (keys hs0)
            \<and> (\<forall>k. lookup hs k =
                  (if k \<in> keys hs0 then lookup hs0 k
                   else if k = ''host'' then host parsedUrl else JUndefined))"
proof -
  from assms(1) have nn: "\<not> nullish config" by (cases config) auto
  let ?hs = "assign [(''host'', host parsedUrl)] (field config ''headers'')"
  have m: "map_of ?hs = [''host'' \<mapsto> host parsedUrl] ++ map_of hs0"
    using map_of_assign [of "field config ''headers''" "[(''host'', host parsedUrl)]"]
      assms(4,5)
    by simp
  have 1: "createClientRequestFromConfig rt config =
               Inr (JObj [(''timestamp'', field config ''timestamp''),
                          (''method'', JStr (toUpperCase m)),
                          (''url'', path parsedUrl),
                          (''headers'', JObj ?hs)])"
    using nn assms(1,2,3) by (simp add: createClientRequestFromConfig_def get_field)
  have 2: "keys ?hs = insert ''host'' (keys hs0)"
    by (auto simp: keys_dom m)
  have 3: "lookup ?hs k =
                  (if k \<in> keys hs0 then lookup hs0 k
                   else if k = ''host'' then host parsedUrl else JUndefined)" for k
    by (auto simp: lookup_def m keys_dom map_add_def split: option.splits)
  from 1 2 3 show ?thesis by blast
qed

theorem createClientRequestFromConfig_headers_witness:
  "field example_config ''url'' = JStr ''http://example.com/x''
   \<and> URL_parse example_runtime ''http://example.com/x''
       = Inr \<lparr>host = JStr ''example.com'', path = JStr ''/x''\<rparr>
   \<and> field example_config ''method'' = JStr ''post''
   \<and> own_props (field example_config ''headers'') = [(''auth'', JStr ''t'')]
   \<and> distinct (map fst [(''auth'', JStr ''t'')])
   \<and> (\<exists>hs. createClientRequestFromConfig example_runtime example_config =
               Inr (JObj [(''timestamp'', JStr ''2024-01-01T00:00:00.000Z''),
                          (''method'', JStr ''POST''),
                          (''url'', JStr ''/x''),
                          (''headers'', JObj hs)])
            \<and> keys hs = {''host'', ''auth''}
            \<and> lookup hs ''auth'' = JStr ''t''
            \<and> lookup hs ''host'' = JStr ''example.com'')"
proof -
  have h: "field example_config ''url'' = JStr ''http://example.com/x''"
      "URL_parse example_runtime ''http://example.com/x''
         = Inr \<lparr>host = JStr ''example.com'', path = JStr ''/x''\<rparr>"
      "field example_config ''method'' = JStr ''post''"
      "own_props (field example_config ''headers'') = [(''auth'', JStr ''t'')]"
      "distinct (map fst [(''auth'', JStr ''t'')])"
    by (simp_all add: example_config_def lookup_def example_runtime_def example_URL_parse_def)
  obtain hs where r: "createClientRequestFromConfig example_runtime example_config =
               Inr (JObj [(''timestamp'', field example_config ''timestamp''),
                          (''method'', JStr (toUpperCase ''post'')),
                          (''url'', path \<lparr>host = JStr ''example.com'', path = JStr ''/x''\<rparr>),
                          (''headers'', JObj hs)])"
      and k: "keys hs = insert ''host'' (keys [(''auth'', JStr ''t'')])"
      and l: "\<forall>k. lookup hs k =
                  (if k \<in> keys [(''auth'', JStr ''t'')] then lookup [(''auth'', JStr ''t'')] k
                   else if k = ''host''
                        then host \<lparr>host = JStr ''example.com'', path = JStr ''/x''\<rparr>
                        else JUndefined)"
    using createClientRequestFromConfig_headers [OF h] by blast
  have 1: "createClientRequestFromConfig example_runtime example_config =
               Inr (JObj [(''timestamp'', JStr ''2024-01-01T00:00:00.000Z''),
                          (''method'', JStr ''POST''),
                          (''url'', JStr ''/x''),
                          (''headers'', JObj hs)])"
    using r by (simp add: example_config_def lookup_def toUpperCase_def upper_char_def)
  have 2: "keys hs = {''host'', ''auth''}"
    using k by (simp add: keys_def)
  have 3: "lookup hs ''auth'' = JStr ''t''"
    using l [rule_format, of "''auth''"] by (simp add: keys_def lookup_def)
  have 4: "lookup hs ''host'' = JStr ''example.com''"
    using l [rule_format, of "''host''"] by (simp add: keys_def)
  from h 1 2 3 4 show ?thesis by blast
qed

text \<open>
  C5. \<open>createClientRequestFromConfig\<close> on the config \<^verbatim>\<open>{url: "http://example.com/x",
  method: "post", headers: {auth: "t"}, timestamp: "2024-01-01T00:00:00.000Z"}\<close> returns
  \<^verbatim>\<open>{timestamp: "2024-01-01T00:00:00.000Z", method: "POST", url: "/x", headers:
  {host: "example.com", auth: "t"}}\<close>, for every runtime whose \<^verbatim>\<open>url.parse\<close> gives the
  host \<^verbatim>\<open>example.com\<close> and the path \<^verbatim>\<open>/x\<close> on that url.
\<close>

theorem createClientRequestFromConfig_example:
  assumes "URL_parse rt ''http://example.com/x''
             = Inr \<lparr>host = JStr ''example.com'', path = JStr ''/x''\<rparr>"
  shows "createClientRequestFromConfig rt example_config =
     Inr (JObj [(''timestamp'', JStr ''2024-01-01T00:00:00.000Z''),
                (''method'', JStr ''POST''),
                (''url'', JStr ''/x''),
                (''headers'', JObj [(''host'', JStr ''example.com''), (''auth'', JStr ''t'')])])"
  using assms
  by (simp add: createClientRequestFromConfig_def example_config_def
      lookup_def assign_def toUpperCase_def upper_char_def)

theorem createClientRequestFromConfig_example_witness:
  "URL_parse example_runtime ''http://example.com/x''
     = Inr \<lparr>host = JStr ''example.com'', path = JStr ''/x''\<rparr>
   \<and> createClientRequestFromConfig example_runtime example_config =
     Inr (JObj [(''timestamp'', JStr ''2024-01-01T00:00:00.000Z''),
                (''method'', JStr ''POST''),
                (''url'', JStr ''/x''),
                (''headers'', JObj [(''host'', JStr ''example.com''), (''auth'', JStr ''t'')])])"
proof -
  have h: "URL_parse example_runtime ''http://example.com/x''
             = Inr \<lparr>host = JStr ''example.com'', path = JStr ''/x''\<rparr>"
    by (simp add: example_runtime_def example_URL_parse_def)
  from h createClientRequestFromConfig_example [OF h] show ?thesis by (rule conjI)
qed


text \<open>
  C6. For every exchange that has a config (axios puts the request's config on every
  response), \<open>logResponse\<close> returns the exchange it was given.
\<close>

theorem logResponse_returns_exchange:
  assumes "\<not> nullish axiosResponse" and "\<not> nullish (field axiosResponse ''config'')"
  shows "fst (logResponse opts rt now axiosResponse lg) = Inr axiosResponse"
proof -
  obtain payload message where
    "logResponse opts rt now axiosResponse lg =
       (Inr axiosResponse, lg @ [(Info, payload, message)])"
    using logResponse_ok [OF assms] by blast
  then show ?thesis by simp
qed

theorem logResponse_returns_exchange_witness:
  "\<not> nullish (example_response 200)
   \<and> \<not> nullish (field (example_response 200) ''config'')
   \<and> fst (logResponse no_options example_runtime 1704067200250 (example_response 200) [])
       = Inr (example_response 200)"
proof -
  have h: "\<not> nullish (example_response 200)"
      "\<not> nullish (field (example_response 200) ''config'')"
    by (simp_all add: example_response_def example_config_def lookup_def)
  from h logResponse_returns_exchange [OF h] show ?thesis by blast
qed

text \<open>
  C7. For every error object whose \<^verbatim>\<open>response\<close> and \<^verbatim>\<open>config\<close> are absent (an absent
  property reads as \<^verbatim>\<open>undefined\<close>, which is falsy; the statement covers every falsy
  value), \<open>logError\<close> makes one call of \<^verbatim>\<open>logger.error\<close>, with the message
  \<^verbatim>\<open>Undefined client request ERROR\<close> and the payload \<^verbatim>\<open>{ request: undefined, error }\<close>,
  and rejects with the error.
\<close>

theorem undefined_request_message:
  assumes "\<not> nullish error" and "\<not> truthy (field error ''response'')"
      and "\<not> truthy (field error ''config'')"
  shows "logError opts rt now error lg =
           (Inr (Rejected error),
            lg @ [(Error, JObj [(''request'', JUndefined), (''error'', error)],
                   ''Undefined client request ERROR'')])"
  using assms by (simp add: logError_def get_field)

theorem undefined_request_message_witness:
  "\<not> nullish error_bare \<and> \<not> truthy (field error_bare ''response'')
   \<and> \<not> truthy (field error_bare ''config'')
   \<and> logError no_options example_runtime 1704067200250 error_bare [] =
        (Inr (Rejected error_bare),
         [(Error, JObj [(''request'', JUndefined), (''error'', error_bare)],
           ''Undefined client request ERROR'')])"
proof -
  have h: "\<not> nullish error_bare" "\<not> truthy (field error_bare ''response'')"
      "\<not> truthy (field error_bare ''config'')"
    by (simp_all add: error_bare_def lookup_def)
  from h undefined_request_message [OF h, of no_options example_runtime 1704067200250 "[]"]
  show ?thesis by simp
qed

text \<open>
  C8. In \<open>getLoggableResponseFromAxiosResponse\<close>, when the timestamp on the exchange's
  config is a date and the formatter keeps \<^verbatim>\<open>responseTime\<close>, the \<^verbatim>\<open>responseTime\<close> of
  the result is the time \<open>now\<close> read at normalisation minus the time value of that
  timestamp, an integer of milliseconds; nothing clamps it, so a negative difference
  stays negative (the example has \<open>now\<close> ten milliseconds before the timestamp).
\<close>

theorem responseTime_is_difference:
  assumes "get options ''axiosResponse'' = Inr axiosResponse"
      and "get axiosResponse ''config'' = Inr config"
      and "get config ''timestamp'' = Inr requestTimestamp"
      and "Date_getTime rt requestTimestamp = Some t"
      and "\<forall>p. lookup (formatResponse rt p) ''responseTime'' = lookup p ''responseTime''"
  shows "\<exists>response. getLoggableResponseFromAxiosResponse rt now options = Inr (JObj response)
           \<and> lookup response ''responseTime'' = JNum (now - t)"
proof -
  from assms(1) have o: "\<not> nullish options" by (cases options) auto
  from assms(2) have r: "\<not> nullish axiosResponse" by (cases axiosResponse) auto
  from assms(3) have c: "\<not> nullish config" by (cases config) auto
  have p: "lookup (pseudoNativeResponse rt now requestTimestamp s h) ''responseTime''
             = JNum (now - t)" for s h
    using assms(4) by (simp add: pseudoNativeResponse_def lookup_def)
  show ?thesis
    using o r c assms(1,2,3,5)
    by (simp add: getLoggableResponseFromAxiosResponse_def get_field lookup_update_other p
        Let_def)
qed

theorem responseTime_is_difference_witness:
  "get (JObj [(''axiosResponse'', example_response 200)]) ''axiosResponse''
     = Inr (example_response 200)
   \<and> get (example_response 200) ''config'' = Inr example_config
   \<and> get example_config ''timestamp'' = Inr (JStr ''2024-01-01T00:00:00.000Z'')
   \<and> Date_getTime example_runtime (JStr ''2024-01-01T00:00:00.000Z'') = Some 1704067200000
   \<and> (\<forall>p. lookup (formatResponse example_runtime p) ''responseTime''
            = lookup p ''responseTime'')
   \<and> (\<exists>response.
         getLoggableResponseFromAxiosResponse example_runtime 1704067199990
           (JObj [(''axiosResponse'', example_response 200)]) = Inr (JObj response)
         \<and> lookup response ''responseTime'' = JNum (- 10))"
proof -
  have h: "get (JObj [(''axiosResponse'', example_response 200)]) ''axiosResponse''
             = Inr (example_response 200)"
      "get (example_response 200) ''config'' = Inr example_config"
      "get example_config ''timestamp'' = Inr (JStr ''2024-01-01T00:00:00.000Z'')"
      "Date_getTime example_runtime (JStr ''2024-01-01T00:00:00.000Z'') = Some 1704067200000"
      "\<forall>p. lookup (formatResponse example_runtime p) ''responseTime''
            = lookup p ''responseTime''"
    by (simp_all add: example_response_def example_config_def lookup_def example_runtime_def
        example_Date_parse_def)
  from h responseTime_is_difference [OF h, of 1704067199990] show ?thesis by simp
qed

text \<open>
  The method called is never the wrong one: an invocation of \<open>logResponse\<close> calls
  \<^verbatim>\<open>logger.info\<close> once and nothing else, or throws before any call, and on an exchange
  that has a config it does make its call; an invocation of \<open>logError\<close> calls
  \<^verbatim>\<open>logger.error\<close> once and nothing else, or throws before any call.
\<close>

lemma sink_levels:
  "(snd (logResponse opts rt now axiosResponse lg) = lg
      \<and> (\<exists>e. fst (logResponse opts rt now axiosResponse lg) = Inl e)
    \<or> (\<exists>payload message.
          snd (logResponse opts rt now axiosResponse lg) = lg @ [(Info, payload, message)]))
   \<and> (\<not> nullish axiosResponse \<and> \<not> nullish (field axiosResponse ''config'') \<longrightarrow>
        (\<exists>payload message.
          snd (logResponse opts rt now axiosResponse lg) = lg @ [(Info, payload, message)]))
   \<and> (snd (logError opts rt now error lg) = lg
      \<and> (\<exists>e. fst (logError opts rt now error lg) = Inl e)
    \<or> (\<exists>payload message.
          snd (logError opts rt now error lg) = lg @ [(Error, payload, message)]))"
proof -
  have 1: "snd (logResponse opts rt now axiosResponse lg) = lg
      \<and> (\<exists>e. fst (logResponse opts rt now axiosResponse lg) = Inl e)
    \<or> (\<exists>payload message.
          snd (logResponse opts rt now axiosResponse lg) = lg @ [(Info, payload, message)])"
    by (simp add: logResponse_def run_def split: sum.splits)
  have 2: "\<exists>payload message.
          snd (logResponse opts rt now axiosResponse lg) = lg @ [(Info, payload, message)]"
    if h: "\<not> nullish axiosResponse \<and> \<not> nullish (field axiosResponse ''config'')"
  proof -
    obtain payload message where
      "logResponse opts rt now axiosResponse lg =
         (Inr axiosResponse, lg @ [(Info, payload, message)])"
      using logResponse_ok h by blast
    then show ?thesis by simp
  qed
  have 3: "snd (logError opts rt now error lg) = lg
      \<and> (\<exists>e. fst (logError opts rt now error lg) = Inl e)
    \<or> (\<exists>payload message.
          snd (logError opts rt now error lg) = lg @ [(Error, payload, message)])"
    by (simp add: logError_def run_def split: sum.splits)
  from 1 2 3 show ?thesis by blast
qed

text \<open>
  C9. Claim: a success is logged through \<^verbatim>\<open>logger.info\<close> only, every failure branch
  through \<^verbatim>\<open>logger.error\<close> only, and no invocation calls both. No invocation calls both
  and no call goes to the wrong method (lemma \<open>sink_levels\<close>), but the failure branch
  of an error that carries a response does not log through \<^verbatim>\<open>logger.error\<close>: on the
  error axios makes of a 404 response, the exception of C1 leaves \<open>logError\<close> before
  the call, and no error-level entry reaches the logger.
\<close>

theorem logError_response_no_error_entry:
  "Error \<notin> fst ` set (snd (logError opts rt now error_with_response []))"
  by (simp add: logError_def error_with_response_def example_response_def lookup_def
      getLoggableRequestFromAxiosResponse_def)

text \<open>
  C10. For every request object, \<open>makeRequestLine\<close> returns the line of the
  specification's wording (\<open>requestLine_spec\<close>: the method, a space, the host and the
  path, with the fallbacks of the claim), and nothing after the path: not that line
  with a space appended.
\<close>

theorem makeRequestLine_format:
  "makeRequestLine (JObj request) = Inr (requestLine_spec request)
   \<and> makeRequestLine (JObj request) \<noteq> Inr (requestLine_spec request @ '' '')"
  by (simp add: makeRequestLine_eq)

theorem makeRequestLine_format_witness:
  "makeRequestLine (JObj [(''method'', JStr ''GET''), (''url'', JStr ''/test''),
                          (''headers'', JObj [(''host'', JStr ''example.com'')])])
     = Inr ''GET example.com/test''"
  using makeRequestLine_format
    [of "[(''method'', JStr ''GET''), (''url'', JStr ''/test''),
          (''headers'', JObj [(''host'', JStr ''example.com'')])]"]
  by (simp add: requestLine_spec_def host_spec_def path_spec_def request_headers_spec_def
      lookup_def)


end
